theory Spec2Isabelle
  imports Main "HOL-Library.Char_ord" "HOL-Library.List_Lexorder" "HOL-Library.Multiset"
begin

section \<open>Strings and exceptions\<close>

text \<open>
  Python strings are modelled as \<^typ>\<open>string\<close>. The source's literals contain accented
  letters; they are written as their UTF-8 bytes. User input (questions, tokens, file
  contents) is an arbitrary \<^typ>\<open>string\<close>.
\<close>

definition nl :: string where
  "nl = [CHR 0x0A]"

definition a_acute :: string where
  "a_acute = [CHR 0xC3, CHR 0xA1]"

definition e_acute :: string where
  "e_acute = [CHR 0xC3, CHR 0xA9]"

definition E_acute :: string where
  "E_acute = [CHR 0xC3, CHR 0x89]"

definition o_acute :: string where
  "o_acute = [CHR 0xC3, CHR 0xB3]"

definition u_acute :: string where
  "u_acute = [CHR 0xC3, CHR 0xBA]"

text \<open>The decimal rendering of a non-negative integer inside an f-string.\<close>

function str_nat :: "nat \<Rightarrow> string" where
  "str_nat n =
     (if n < 10 then [''0123456789'' ! n]
      else str_nat (n div 10) @ [''0123456789'' ! (n mod 10)])"
  by pat_completeness auto
termination
  by (relation "measure id") auto

declare str_nat.simps [simp del]

text \<open>
  The source has no exception classes of its own: every handler is
  \<^verbatim>\<open>except Exception as e\<close> and only \<^verbatim>\<open>str(e)\<close> is used.
\<close>

datatype exn = Exn string

fun str_exn :: "exn \<Rightarrow> string" where
  "str_exn (Exn m) = m"

text \<open>Python's \<^verbatim>\<open>str\<close> of a list: the \<^verbatim>\<open>repr\<close> of the elements, comma-separated, in brackets.\<close>

fun join_comma :: "string list \<Rightarrow> string" where
  "join_comma [] = []"
| "join_comma [x] = x"
| "join_comma (x # y # ys) = x @ '', '' @ join_comma (y # ys)"

definition py_str_list :: "string list \<Rightarrow> string" where
  "py_str_list reprs = ''['' @ join_comma reprs @ '']''"

section \<open>Data model\<close>

datatype meta = MStr string | MInt int

record document =
  page_content :: string
  metadata :: "(string \<times> meta) list"

text \<open>An \<^verbatim>\<open>UploadFile\<close>: its content-type header (which may be missing) and the bytes
  that \<^verbatim>\<open>file.file.read()\<close> yields.\<close>

record upload =
  content_type :: "string option"
  data :: string

record multicast_message =
  notification_title :: string
  notification_body :: string
  tokens :: "string list"

datatype payload =
    Answer string
  | Message string
  | Detail string
  | Health string string
  | Redirect string

record response =
  status_code :: nat
  content :: payload

definition HTTPException :: "nat \<Rightarrow> string \<Rightarrow> response" where
  "HTTPException code detail = \<lparr>status_code = code, content = Detail detail\<rparr>"

definition ok :: "payload \<Rightarrow> response" where
  "ok p = \<lparr>status_code = 200, content = p\<rparr>"

text \<open>
  The third-party libraries the code calls, as far as they are functions of their
  arguments: page texts of a PDF (PyPDFLoader), the text splitter
  (RecursiveCharacterTextSplitter, by chunk size and overlap), the \<^verbatim>\<open>repr\<close> of a
  Document, and the distance of a stored text to a query under the configured embedding.
\<close>

record externals =
  pdf_pages :: "string \<Rightarrow> exn + string list"
  split_text :: "nat \<Rightarrow> nat \<Rightarrow> string \<Rightarrow> string list"
  doc_repr :: "document \<Rightarrow> string"
  distance :: "string \<Rightarrow> string \<Rightarrow> nat"

text \<open>
  How the \<^verbatim>\<open>with\<close> block around \<^verbatim>\<open>tmp_file.write(file.file.read())\<close> can fail:
  reading the upload raises, the device refuses the bytes written to the temporary file,
  or closing the file on leaving the block raises for another reason.
\<close>

datatype write_failure = ReadRaises exn | DeviceRefuses exn | CloseRaises exn

text \<open>
  What the environment decides during one operation: the name of the temporary file and
  the size of its write buffer, which external calls fail, what the LLM and the push
  service answer, and the order in which Python enumerates the token set.
\<close>

record outcome =
  tmp_name :: string
  tmp_create_error :: "exn option"
  buffer_size :: nat
  write_error :: "write_failure option"
  written :: nat
  split_error :: "exn option"
  add_error :: "exn option"
  bootstrap_error :: "exn option"
  retrieval_error :: "exn option"
  llm_reply :: "string \<Rightarrow> exn + string"
  token_order :: "string set \<Rightarrow> string list"
  multicast_result :: "exn + bool list"

text \<open>
  Calls to \<^verbatim>\<open>print\<close> are left out: standard output is not part of the state.

  The state the operations act on: the Chroma collection (persistent, append order), the
  listing of the persistence directory (\<open>None\<close> when the path does not exist), the file
  system, the in-memory token set, and the calls made so far to the push service and to
  the LLM.
\<close>

record state =
  index :: "document list"
  persist_dir :: "string list option"
  files :: "string \<rightharpoonup> string"
  fcm_tokens :: "string set"
  push_calls :: "multicast_message list"
  llm_calls :: "string list"

section \<open>Vector store\<close>

definition bootstrap_document :: document where
  "bootstrap_document =
     \<lparr>page_content = ''Este es un documento inicial para la base de datos vectorial.'',
      metadata = []\<rparr>"

text \<open>
  \<^verbatim>\<open>get_vector_store\<close>. Opening a Chroma store on a directory writes its database file
  there; \<^verbatim>\<open>from_texts\<close> opens the store and then adds the texts, which fails when the
  embedding service does.
\<close>

definition get_vector_store :: "outcome \<Rightarrow> state \<Rightarrow> (exn + unit) \<times> state" where
  "get_vector_store oc st =
     (if (case persist_dir st of None \<Rightarrow> False | Some listing \<Rightarrow> listing \<noteq> [])
      then (Inr (), st)
      else
        let st1 = st\<lparr>persist_dir := Some [''chroma.sqlite3'']\<rparr> in
        (case bootstrap_error oc of
           Some e \<Rightarrow> (Inl e, st1)
         | None \<Rightarrow> (Inr (), st1\<lparr>index := index st1 @ [bootstrap_document]\<rparr>)))"

text \<open>\<^verbatim>\<open>vector_store_instance.add_documents\<close>: one batch, all or nothing.\<close>

definition add_documents :: "outcome \<Rightarrow> document list \<Rightarrow> state \<Rightarrow> (exn + unit) \<times> state" where
  "add_documents oc chunks st =
     (case add_error oc of
        Some e \<Rightarrow> (Inl e, st)
      | None \<Rightarrow> (Inr (), st\<lparr>index := index st @ chunks\<rparr>))"

text \<open>Top-k similarity search of the store: the k entries nearest to the query.\<close>

definition similarity_search :: "externals \<Rightarrow> string \<Rightarrow> nat \<Rightarrow> document list \<Rightarrow> document list" where
  "similarity_search ext query k idx =
     take k (sort_key (\<lambda>d. distance ext query (page_content d)) idx)"

section \<open>PDF service\<close>

text \<open>\<^verbatim>\<open>PyPDFLoader(path).load()\<close>: one document per page, tagged with source and page.\<close>

definition page_documents :: "string \<Rightarrow> string list \<Rightarrow> document list" where
  "page_documents path pages =
     map (\<lambda>(i, t). \<lparr>page_content = t,
                         metadata = [(''source'', MStr path), (''page'', MInt (int i))]\<rparr>)
         (zip [0..<length pages] pages)"

definition PyPDFLoader_load :: "externals \<Rightarrow> string \<Rightarrow> state \<Rightarrow> exn + document list" where
  "PyPDFLoader_load ext path st =
     (case files st path of
        None \<Rightarrow> Inl (Exn (''File path '' @ path @ '' is not a valid file or url''))
      | Some bytes \<Rightarrow>
          (case pdf_pages ext bytes of
             Inl e \<Rightarrow> Inl e
           | Inr pages \<Rightarrow> Inr (page_documents path pages)))"

text \<open>\<^verbatim>\<open>text_splitter.split_documents\<close> with \<^verbatim>\<open>chunk_size=1000, chunk_overlap=100\<close>: every
  document is split on its own and each chunk keeps the document's metadata.\<close>

definition chunk_documents :: "externals \<Rightarrow> document list \<Rightarrow> document list" where
  "chunk_documents ext documents =
     concat (map (\<lambda>d. map (\<lambda>t. d\<lparr>page_content := t\<rparr>)
                              (split_text ext 1000 100 (page_content d)))
                 documents)"

definition split_documents :: "externals \<Rightarrow> outcome \<Rightarrow> document list \<Rightarrow> exn + document list" where
  "split_documents ext oc documents =
     (case split_error oc of
        Some e \<Rightarrow> Inl e
      | None \<Rightarrow> Inr (chunk_documents ext documents))"

text \<open>Steps 1 to 3 (load, split, add), which both service functions spell out alike.\<close>

definition load_split_add :: "externals \<Rightarrow> outcome \<Rightarrow> string \<Rightarrow> state \<Rightarrow> (exn + unit) \<times> state" where
  "load_split_add ext oc path st =
     (case PyPDFLoader_load ext path st of
        Inl e \<Rightarrow> (Inl e, st)
      | Inr documents \<Rightarrow>
          (case split_documents ext oc documents of
             Inl e \<Rightarrow> (Inl e, st)
           | Inr chunks \<Rightarrow> add_documents oc chunks st))"

text \<open>
  The \<^verbatim>\<open>with\<close> block of \<^verbatim>\<open>process_and_update_vector_store\<close>, entered once
  \<^verbatim>\<open>NamedTemporaryFile(delete=False)\<close> has created the file. The second component is
  the local variable \<^verbatim>\<open>tmp_file_path\<close>: \<open>None\<close> as long as it has not been assigned,
  which happens only after the write. The file object is buffered. If reading the upload
  raises, the file stays empty and the variable unbound. If the device refuses the
  bytes, a body larger than the buffer makes \<^verbatim>\<open>write\<close> itself raise, with the variable
  unbound; a smaller body stays in the buffer, the variable is bound, and the error is
  raised when the file is closed on leaving the block; with no byte to write nothing is
  refused. Any error raised by the close finds the variable bound.
\<close>

definition write_upload :: "outcome \<Rightarrow> upload \<Rightarrow> state \<Rightarrow> (exn + unit) \<times> string option \<times> state" where
  "write_upload oc file st =
     (case write_error oc of
        None \<Rightarrow>
          (Inr (), Some (tmp_name oc), st\<lparr>files := (files st)(tmp_name oc \<mapsto> data file)\<rparr>)
      | Some (ReadRaises e) \<Rightarrow>
          (Inl e, None, st\<lparr>files := (files st)(tmp_name oc \<mapsto> [])\<rparr>)
      | Some (DeviceRefuses e) \<Rightarrow>
          if buffer_size oc < length (data file)
          then (Inl e, None,
                st\<lparr>files := (files st)(tmp_name oc \<mapsto> take (written oc) (data file))\<rparr>)
          else if data file = []
          then (Inr (), Some (tmp_name oc), st\<lparr>files := (files st)(tmp_name oc \<mapsto> data file)\<rparr>)
          else (Inl e, Some (tmp_name oc),
                st\<lparr>files := (files st)(tmp_name oc \<mapsto> take (written oc) (data file))\<rparr>)
      | Some (CloseRaises e) \<Rightarrow>
          (Inl e, Some (tmp_name oc),
           st\<lparr>files := (files st)(tmp_name oc \<mapsto> take (written oc) (data file))\<rparr>))"

text \<open>The \<^verbatim>\<open>try\<close> block: the temporary file, then steps 1 to 3 on it.\<close>

definition process_upload_try ::
  "externals \<Rightarrow> outcome \<Rightarrow> upload \<Rightarrow> state \<Rightarrow> (exn + unit) \<times> string option \<times> state" where
  "process_upload_try ext oc file st =
     (case tmp_create_error oc of
        Some e \<Rightarrow> (Inl e, None, st)
      | None \<Rightarrow>
          (case write_upload oc file st of
             (Inl e, tmp_file_path, st1) \<Rightarrow> (Inl e, tmp_file_path, st1)
           | (Inr _, tmp_file_path, st1) \<Rightarrow>
               let (r, st2) = load_split_add ext oc (tmp_name oc) st1
               in (r, tmp_file_path, st2)))"

text \<open>The \<^verbatim>\<open>finally\<close> block: remove the file if the variable is bound and the file exists.\<close>

definition finally_cleanup :: "string option \<Rightarrow> state \<Rightarrow> state" where
  "finally_cleanup tmp_file_path st =
     (case tmp_file_path of
        None \<Rightarrow> st
      | Some p \<Rightarrow> if p \<in> dom (files st) then st\<lparr>files := (files st)(p := None)\<rparr> else st)"

definition process_and_update_vector_store ::
  "externals \<Rightarrow> outcome \<Rightarrow> upload \<Rightarrow> state \<Rightarrow> (exn + unit) \<times> state" where
  "process_and_update_vector_store ext oc file st =
     (let (r, tmp_file_path, st') = process_upload_try ext oc file st
      in (r, finally_cleanup tmp_file_path st'))"

definition process_pdf_from_path ::
  "externals \<Rightarrow> outcome \<Rightarrow> string \<Rightarrow> state \<Rightarrow> (exn + unit) \<times> state" where
  "process_pdf_from_path ext oc file_path st = load_split_add ext oc file_path st"

section \<open>RAG chain\<close>

definition retriever :: "externals \<Rightarrow> string \<Rightarrow> document list \<Rightarrow> document list" where
  "retriever ext query idx = similarity_search ext query 3 idx"

definition system_instruction :: string where
  "system_instruction =
     nl @ ''Eres un asistente de inteligencia artificial amigable y servicial, especializado en responder '' @ nl
     @ ''preguntas sobre el men'' @ u_acute @ '' de un restaurante. Tu objetivo es proporcionar respuestas claras, '' @ nl
     @ ''concisas y precisas, bas'' @ a_acute @ ''ndote '' @ u_acute @ ''nicamente en el contexto que se te proporciona a continuaci'' @ o_acute @ ''n.'' @ nl
     @ nl
     @ ''Si la informaci'' @ o_acute @ ''n para responder la pregunta no se encuentra en el contexto, debes indicar '' @ nl
     @ ''respetuosamente que no tienes la informaci'' @ o_acute @ ''n solicitada. No intentes inventar una respuesta.'' @ nl
     @ nl"

text \<open>\<^verbatim>\<open>prompt_template\<close> with its two placeholders filled in.\<close>

definition prompt_template :: "string \<Rightarrow> string \<Rightarrow> string" where
  "prompt_template context question =
     system_instruction
     @ ''Contexto:'' @ nl @ context @ nl
     @ nl
     @ ''Pregunta:'' @ nl @ question @ nl
     @ nl
     @ ''Respuesta:'' @ nl"

text \<open>
  \<^verbatim>\<open>rag_chain.invoke(question)\<close>. The dictionary step hands the retriever's result, a
  list of documents, to the template as it is; the template formats it with \<^verbatim>\<open>str\<close>.
  The output parser returns the text of the LLM's message.
\<close>

definition rag_chain :: "externals \<Rightarrow> outcome \<Rightarrow> string \<Rightarrow> state \<Rightarrow> (exn + string) \<times> state" where
  "rag_chain ext oc question st =
     (case retrieval_error oc of
        Some e \<Rightarrow> (Inl e, st)
      | None \<Rightarrow>
          let context = retriever ext question (index st);
              prompt = prompt_template (py_str_list (map (doc_repr ext) context)) question;
              st1 = st\<lparr>llm_calls := llm_calls st @ [prompt]\<rparr>
          in (llm_reply oc prompt, st1))"

section \<open>Routes\<close>

definition handle_chat :: "externals \<Rightarrow> outcome \<Rightarrow> string \<Rightarrow> state \<Rightarrow> response \<times> state" where
  "handle_chat ext oc question st =
     (case rag_chain ext oc question st of
        (Inr answer, st') \<Rightarrow> (ok (Answer answer), st')
      | (Inl e, st') \<Rightarrow>
          (HTTPException 500 (''Ocurri'' @ o_acute @ '' un error al procesar la pregunta: '' @ str_exn e),
           st'))"

definition upload_pdf :: "externals \<Rightarrow> outcome \<Rightarrow> upload \<Rightarrow> state \<Rightarrow> response \<times> state" where
  "upload_pdf ext oc file st =
     (if content_type file \<noteq> Some ''application/pdf''
      then (HTTPException 400 (''Formato de archivo no v'' @ a_acute @ ''lido. Por favor, sube un PDF.''), st)
      else
        (case process_and_update_vector_store ext oc file st of
           (Inr _, st') \<Rightarrow>
             (ok (Message (''Nuevo PDF procesado y base de datos vectorial actualizada exitosamente.'')), st')
         | (Inl e, st') \<Rightarrow>
             (HTTPException 500 (''Ocurri'' @ o_acute @ '' un error al procesar el archivo PDF: '' @ str_exn e),
              st')))"

section \<open>Application\<close>

definition root :: "state \<Rightarrow> response \<times> state" where
  "root st = (\<lparr>status_code = 307, content = Redirect ''/docs''\<rparr>, st)"

definition health_check :: "state \<Rightarrow> response \<times> state" where
  "health_check st = (ok (Health ''ok'' ''Servidor funcionando correctamente.''), st)"

definition register_fcm_token :: "string \<Rightarrow> state \<Rightarrow> response \<times> state" where
  "register_fcm_token token st =
     (let st' = (if token \<notin> fcm_tokens st
                 then st\<lparr>fcm_tokens := insert token (fcm_tokens st)\<rparr> else st)
      in (ok (Message (''Token FCM registrado con '' @ e_acute @ ''xito'')), st'))"

text \<open>
  \<^verbatim>\<open>send_notification_to_all\<close>. Building the message is outside the \<^verbatim>\<open>try\<close>; the push
  library refuses more than 500 tokens there, which the framework answers with its own
  500. Inside the \<^verbatim>\<open>try\<close>, the failed tokens are looked up by position in a fresh
  enumeration of the set, which raises when a failed position is out of range.
\<close>

definition send_notification_to_all ::
  "outcome \<Rightarrow> string \<Rightarrow> string \<Rightarrow> state \<Rightarrow> response \<times> state" where
  "send_notification_to_all oc title body st =
     (if fcm_tokens st = {}
      then (HTTPException 404 ''No hay tokens FCM registrados.'', st)
      else
        let toks = token_order oc (fcm_tokens st) in
        if length toks > 500
        then (HTTPException 500 ''Internal Server Error'', st)
        else
          let message = \<lparr>notification_title = title, notification_body = body, tokens = toks\<rparr>;
              st1 = st\<lparr>push_calls := push_calls st @ [message]\<rparr>
          in (case multicast_result oc of
                Inl e \<Rightarrow>
                  (HTTPException 500 (''Error al enviar las notificaciones: '' @ str_exn e), st1)
              | Inr responses \<Rightarrow>
                  let success_count = length (filter (\<lambda>b. b) responses);
                      failure_count = length (filter (\<lambda>b. \<not> b) responses)
                  in if list_ex (\<lambda>i. \<not> responses ! i \<and> length toks \<le> i) [0..<length responses]
                     then (HTTPException 500
                             (''Error al enviar las notificaciones: '' @ ''list index out of range''), st1)
                     else (ok (Message (''Notificaciones enviadas. '' @ E_acute @ ''xitos: ''
                                        @ str_nat success_count @ '', Fallos: ''
                                        @ str_nat failure_count)), st1)))"

text \<open>
  Start of the process: the vector store module is initialised on import (if that
  raises, the process does not come up), the token set starts empty, and the lifespan
  hook indexes the default menu if the file exists, swallowing any error. Initialising
  the push SDK there changes nothing the state records; whether sending works is part
  of the outcome.
\<close>

definition lifespan :: "externals \<Rightarrow> outcome \<Rightarrow> state \<Rightarrow> state" where
  "lifespan ext oc st =
     (if ''app/data/menu.pdf'' \<in> dom (files st)
      then snd (process_pdf_from_path ext oc ''app/data/menu.pdf'' st)
      else st)"

definition startup :: "externals \<Rightarrow> outcome \<Rightarrow> state \<Rightarrow> state" where
  "startup ext oc st =
     (case get_vector_store oc st of
        (Inl e, st1) \<Rightarrow> st1
      | (Inr _, st1) \<Rightarrow> lifespan ext oc (st1\<lparr>fcm_tokens := {}\<rparr>))"

datatype operation =
    Startup
  | Chat string
  | UploadPdf upload
  | RegisterToken string
  | SendNotification string string
  | HealthCheck
  | Root

definition step :: "externals \<Rightarrow> outcome \<Rightarrow> operation \<Rightarrow> state \<Rightarrow> state" where
  "step ext oc operation st =
     (case operation of
        Startup \<Rightarrow> startup ext oc st
      | Chat question \<Rightarrow> snd (handle_chat ext oc question st)
      | UploadPdf file \<Rightarrow> snd (upload_pdf ext oc file st)
      | RegisterToken token \<Rightarrow> snd (register_fcm_token token st)
      | SendNotification title body \<Rightarrow> snd (send_notification_to_all oc title body st)
      | HealthCheck \<Rightarrow> snd (health_check st)
      | Root \<Rightarrow> snd (root st))"

fun run :: "externals \<Rightarrow> (outcome \<times> operation) list \<Rightarrow> state \<Rightarrow> state" where
  "run ext [] st = st"
| "run ext ((oc, operation) # rest) st = run ext rest (step ext oc operation st)"

section \<open>Sample environments and inputs\<close>

text \<open>
  Concrete stand-ins for the libraries, used to run the model: a PDF is taken to be
  the header \<^verbatim>\<open>%PDF-\<close> followed by the texts of its pages, separated by form feeds;
  a text of at most \<open>chunk_size\<close> characters is one chunk and an empty text none; a
  document is rendered with its text in quotes; the distance of a text to a query is the
  number of positions at which they differ.
\<close>

fun split_pages :: "string \<Rightarrow> string list" where
  "split_pages [] = [[]]"
| "split_pages (c # cs) =
     (if c = CHR 0x0C then [] # split_pages cs
      else (case split_pages cs of [] \<Rightarrow> [[c]] | p # ps \<Rightarrow> (c # p) # ps))"

definition sample_ext :: externals where
  "sample_ext =
     \<lparr>pdf_pages = (\<lambda>bytes. if take 5 bytes = ''%PDF-'' then Inr (split_pages (drop 5 bytes))
                             else Inl (Exn ''invalid pdf header'')),
      split_text = (\<lambda>chunk_size chunk_overlap t.
                      if t = [] then []
                      else if length t \<le> chunk_size then [t]
                      else [take chunk_size t, drop (chunk_size - chunk_overlap) t]),
      doc_repr = (\<lambda>d. ''Document(page_content='' @ [CHR 0x27] @ page_content d @ [CHR 0x27] @ '')''),
      distance = (\<lambda>query t. length (filter (\<lambda>(a, b). a \<noteq> b) (zip query t))
                              + (length query - length t) + (length t - length query))\<rparr>"

text \<open>An operation during which nothing fails.\<close>

definition calm :: outcome where
  "calm =
     \<lparr>tmp_name = ''/tmp/tmpk3v9x2ab.pdf'',
      tmp_create_error = None,
      buffer_size = 8192,
      write_error = None,
      written = 0,
      split_error = None,
      add_error = None,
      bootstrap_error = None,
      retrieval_error = None,
      llm_reply = (\<lambda>prompt. Inr ''No tengo esa informacion.''),
      token_order = sorted_list_of_set,
      multicast_result = Inr []\<rparr>"

definition fresh_state :: state where
  "fresh_state =
     \<lparr>index = [], persist_dir = None, files = Map.empty, fcm_tokens = {},
      push_calls = [], llm_calls = []\<rparr>"

definition bootstrapped_state :: state where
  "bootstrapped_state =
     \<lparr>index = [bootstrap_document], persist_dir = Some [''chroma.sqlite3''],
      files = Map.empty, fcm_tokens = {}, push_calls = [], llm_calls = []\<rparr>"

definition menu_upload :: upload where
  "menu_upload = \<lparr>content_type = Some ''application/pdf'', data = ''%PDF-Menu: Pizza $10''\<rparr>"

definition text_upload :: upload where
  "text_upload = \<lparr>content_type = Some ''text/plain'', data = ''hello''\<rparr>"

definition two_page_upload :: upload where
  "two_page_upload =
     \<lparr>content_type = Some ''application/pdf'',
      data = ''%PDF-Pizza $10'' @ [CHR 0x0C] @ ''Pasta $12''\<rparr>"

text \<open>A file sent as a PDF that is none.\<close>

definition broken_upload :: upload where
  "broken_upload = \<lparr>content_type = Some ''application/pdf'', data = ''GIF89a''\<rparr>"

text \<open>A well-formed PDF whose only page carries no text, as a scanned page does.\<close>

definition blank_upload :: upload where
  "blank_upload = \<lparr>content_type = Some ''application/pdf'', data = ''%PDF-''\<rparr>"

text \<open>An index that already holds a menu of three chunks besides the placeholder.\<close>

definition stocked_state :: state where
  "stocked_state =
     \<lparr>index =
        [bootstrap_document,
         \<lparr>page_content = ''Pizza $10'',
          metadata = [(''source'', MStr ''/tmp/tmpq7w1e5rt.pdf''), (''page'', MInt 0)]\<rparr>,
         \<lparr>page_content = ''Pasta $12'',
          metadata = [(''source'', MStr ''/tmp/tmpq7w1e5rt.pdf''), (''page'', MInt 0)]\<rparr>,
         \<lparr>page_content = ''Flan $5'',
          metadata = [(''source'', MStr ''/tmp/tmpq7w1e5rt.pdf''), (''page'', MInt 1)]\<rparr>],
      persist_dir = Some [''chroma.sqlite3''],
      files = Map.empty, fcm_tokens = {}, push_calls = [], llm_calls = []\<rparr>"

text \<open>The embedding service or the store cannot be reached when the batch is written.\<close>

definition store_down :: outcome where
  "store_down = calm\<lparr>add_error := Some (Exn ''embedding service unreachable'')\<rparr>"

text \<open>The device has no space left for the bytes of the temporary file.\<close>

definition disk_full :: outcome where
  "disk_full =
     calm\<lparr>write_error := Some (DeviceRefuses (Exn ''[Errno 28] No space left on device''))\<rparr>"

text \<open>A PDF of 1000005 bytes, far more than the write buffer holds.\<close>

definition large_upload :: upload where
  "large_upload =
     \<lparr>content_type = Some ''application/pdf'', data = ''%PDF-'' @ replicate 1000000 (CHR ''a'')\<rparr>"

text \<open>The embedding service cannot be reached when the store is created.\<close>

definition embedding_down :: outcome where
  "embedding_down = calm\<lparr>bootstrap_error := Some (Exn ''embedding service unreachable'')\<rparr>"

text \<open>The bootstrapped store next to the default menu file.\<close>

definition menu_state :: state where
  "menu_state =
     bootstrapped_state\<lparr>files := [''app/data/menu.pdf'' \<mapsto> ''%PDF-Menu: Pizza $10'']\<rparr>"

section \<open>Upload validation\<close>

text \<open>
  C2. An upload to /api/upload-pdf whose content type is not exactly
  \<^verbatim>\<open>application/pdf\<close> (a missing content type included) is answered with HTTP 400 and
  the whole state is left as it was: no entry is added to the vector index and no
  temporary file is created.
\<close>

theorem upload_pdf_rejects_non_pdf:
  "content_type file \<noteq> Some ''application/pdf'' \<Longrightarrow>
   upload_pdf ext oc file st =
     (HTTPException 400 (''Formato de archivo no v'' @ a_acute @ ''lido. Por favor, sube un PDF.''), st)"
  by (simp add: upload_pdf_def)

theorem upload_pdf_rejects_non_pdf_witness:
  "content_type text_upload \<noteq> Some ''application/pdf''
   \<and> status_code (fst (upload_pdf sample_ext calm text_upload bootstrapped_state)) = 400
   \<and> snd (upload_pdf sample_ext calm text_upload bootstrapped_state) = bootstrapped_state"
  using upload_pdf_rejects_non_pdf [of text_upload sample_ext calm bootstrapped_state]
  by (simp add: text_upload_def HTTPException_def)

section \<open>Notification registration\<close>

text \<open>
  C7. Registering the same device token twice through /api/register-token leaves the
  state after the second call equal to the state after the first; the token is in the
  set, where it is exactly one entry, and both calls give the same answer.
\<close>

theorem register_fcm_token_idempotent:
  "snd (register_fcm_token t (snd (register_fcm_token t st))) = snd (register_fcm_token t st)
   \<and> t \<in> fcm_tokens (snd (register_fcm_token t (snd (register_fcm_token t st))))
   \<and> card {x \<in> fcm_tokens (snd (register_fcm_token t (snd (register_fcm_token t st)))). x = t} = 1
   \<and> fst (register_fcm_token t (snd (register_fcm_token t st))) = fst (register_fcm_token t st)"
proof -
  have member: "t \<in> fcm_tokens (snd (register_fcm_token t st))"
    by (simp add: register_fcm_token_def)
  have same: "snd (register_fcm_token t (snd (register_fcm_token t st))) = snd (register_fcm_token t st)"
    using member by (simp add: register_fcm_token_def)
  have single: "{x \<in> fcm_tokens (snd (register_fcm_token t st)). x = t} = {t}"
    using member by auto
  show ?thesis
    using member same single by (simp add: register_fcm_token_def)
qed

text \<open>
  C8. With no token registered, /api/send-notification answers HTTP 404 and returns the
  state unchanged: no call to the push service is recorded and the token set stays
  empty.
\<close>

theorem send_notification_without_tokens:
  "fcm_tokens st = {} \<Longrightarrow>
   send_notification_to_all oc title body st =
     (HTTPException 404 ''No hay tokens FCM registrados.'', st)"
  by (simp add: send_notification_to_all_def)

theorem send_notification_without_tokens_witness:
  "fcm_tokens bootstrapped_state = {}
   \<and> status_code (fst (send_notification_to_all calm ''Hola'' ''Menu nuevo'' bootstrapped_state)) = 404
   \<and> push_calls (snd (send_notification_to_all calm ''Hola'' ''Menu nuevo'' bootstrapped_state)) = []
   \<and> fcm_tokens (snd (send_notification_to_all calm ''Hola'' ''Menu nuevo'' bootstrapped_state)) = {}"
  using send_notification_without_tokens [of bootstrapped_state calm "''Hola''" "''Menu nuevo''"]
  by (simp add: bootstrapped_state_def HTTPException_def)

section \<open>Initialisation of the vector store\<close>

text \<open>
  C9, as the code has it. When the persistence directory is absent or empty and the
  store can be created, \<^verbatim>\<open>get_vector_store\<close> appends exactly one entry, the bootstrap
  placeholder, so the index it returns is not empty, and the directory is not empty
  afterwards. When the creation raises, the error propagates and no entry is added. When
  the directory exists and is not empty, it inserts nothing and the state, the index
  included, is unchanged, whatever that index holds.
\<close>

theorem get_vector_store_bootstrap:
  "((persist_dir st = None \<or> persist_dir st = Some []) \<and> bootstrap_error oc = None \<longrightarrow>
      fst (get_vector_store oc st) = Inr ()
      \<and> index (snd (get_vector_store oc st)) = index st @ [bootstrap_document]
      \<and> length (index (snd (get_vector_store oc st))) = length (index st) + 1
      \<and> index (snd (get_vector_store oc st)) \<noteq> []
      \<and> persist_dir (snd (get_vector_store oc st)) = Some [''chroma.sqlite3''])
   \<and> (\<forall>e. (persist_dir st = None \<or> persist_dir st = Some []) \<and> bootstrap_error oc = Some e \<longrightarrow>
        fst (get_vector_store oc st) = Inl e
      \<and> index (snd (get_vector_store oc st)) = index st)
   \<and> ((\<exists>listing. persist_dir st = Some listing \<and> listing \<noteq> []) \<longrightarrow>
      get_vector_store oc st = (Inr (), st))"
  by (auto simp: get_vector_store_def split: option.splits)

theorem get_vector_store_bootstrap_witness:
  "(persist_dir fresh_state = None \<and> bootstrap_error calm = None
    \<and> index (snd (get_vector_store calm fresh_state)) = [bootstrap_document]
    \<and> persist_dir (snd (get_vector_store calm fresh_state)) = Some [''chroma.sqlite3''])
   \<and> (bootstrap_error embedding_down = Some (Exn ''embedding service unreachable'')
    \<and> fst (get_vector_store embedding_down fresh_state) = Inl (Exn ''embedding service unreachable''))
   \<and> (persist_dir bootstrapped_state = Some [''chroma.sqlite3'']
    \<and> get_vector_store calm bootstrapped_state = (Inr (), bootstrapped_state))"
  using get_vector_store_bootstrap [of fresh_state calm]
    get_vector_store_bootstrap [of fresh_state embedding_down]
    get_vector_store_bootstrap [of bootstrapped_state calm]
  by (simp add: fresh_state_def bootstrapped_state_def calm_def embedding_down_def)

text \<open>
  The wording of the specification does not hold. On a first start with the embedding
  service down, the store is opened on the directory, the creation raises and no
  placeholder is inserted. The directory is then no longer empty, so the next
  initialisation, with the service up, loads the store as it is and returns an empty
  index.
\<close>

theorem get_vector_store_bootstrap_counterexample:
  "persist_dir fresh_state = None
   \<and> fst (get_vector_store embedding_down fresh_state) = Inl (Exn ''embedding service unreachable'')
   \<and> index (snd (get_vector_store embedding_down fresh_state)) = []
   \<and> persist_dir (snd (get_vector_store embedding_down fresh_state)) = Some [''chroma.sqlite3'']
   \<and> fst (get_vector_store calm (snd (get_vector_store embedding_down fresh_state))) = Inr ()
   \<and> index (snd (get_vector_store calm (snd (get_vector_store embedding_down fresh_state)))) = []"
  by (simp add: get_vector_store_def fresh_state_def embedding_down_def calm_def)

section \<open>Query pipeline\<close>

lemma rag_chain_cases:
  "rag_chain ext oc q st =
     (case retrieval_error oc of
        Some e \<Rightarrow> (Inl e, st)
      | None \<Rightarrow>
          (llm_reply oc (prompt_template (py_str_list (map (doc_repr ext) (retriever ext q (index st)))) q),
           st\<lparr>llm_calls := llm_calls st
                @ [prompt_template (py_str_list (map (doc_repr ext) (retriever ext q (index st)))) q]\<rparr>))"
  by (simp add: rag_chain_def Let_def split: option.splits)

lemma sorted_take_drop:
  assumes "sorted (map f xs)"
  shows "\<forall>x\<in>set (take k xs). \<forall>y\<in>set (drop k xs). f x \<le> f y"
proof -
  have "sorted (map f (take k xs) @ map f (drop k xs))"
    using assms by (simp flip: map_append)
  then show ?thesis
    by (auto simp: sorted_append)
qed

lemma stocked_context:
  "py_str_list (map (doc_repr sample_ext) (retriever sample_ext ''Pizza'' (index stocked_state))) =
     ''[Document(page_content='' @ [CHR 0x27] @ ''Pizza $10'' @ [CHR 0x27] @ ''), ''
     @ ''Document(page_content='' @ [CHR 0x27] @ ''Pasta $12'' @ [CHR 0x27] @ ''), ''
     @ ''Document(page_content='' @ [CHR 0x27] @ ''Flan $5'' @ [CHR 0x27] @ '')]''"
  by (simp add: py_str_list_def stocked_state_def retriever_def similarity_search_def
        sample_ext_def bootstrap_document_def)

text \<open>
  C4, as the code has it. Whenever retrieval succeeds, the one prompt sent to the LLM
  is the fixed instruction, then the label \<^verbatim>\<open>Contexto:\<close> and under it the retrieved
  documents as Python prints a list of them (each document's \<^verbatim>\<open>repr\<close>, separated by
  commas, in brackets, in retrieval order), then the label \<^verbatim>\<open>Pregunta:\<close> and under it
  the question verbatim, then the label \<^verbatim>\<open>Respuesta:\<close>; when retrieval fails no prompt
  is sent.
\<close>

theorem rag_chain_prompt:
  "(retrieval_error oc = None \<longrightarrow>
      llm_calls (snd (rag_chain ext oc q st)) =
        llm_calls st @
          [system_instruction
           @ ''Contexto:'' @ nl @ py_str_list (map (doc_repr ext) (retriever ext q (index st))) @ nl @ nl
           @ ''Pregunta:'' @ nl @ q @ nl @ nl
           @ ''Respuesta:'' @ nl])
   \<and> (\<forall>e. retrieval_error oc = Some e \<longrightarrow> llm_calls (snd (rag_chain ext oc q st)) = llm_calls st)"
  by (simp add: rag_chain_cases prompt_template_def)

theorem rag_chain_prompt_witness:
  "retrieval_error calm = None
   \<and> llm_calls (snd (rag_chain sample_ext calm ''Pizza'' stocked_state)) =
       [system_instruction
        @ ''Contexto:'' @ nl
        @ ''[Document(page_content='' @ [CHR 0x27] @ ''Pizza $10'' @ [CHR 0x27] @ ''), ''
        @ ''Document(page_content='' @ [CHR 0x27] @ ''Pasta $12'' @ [CHR 0x27] @ ''), ''
        @ ''Document(page_content='' @ [CHR 0x27] @ ''Flan $5'' @ [CHR 0x27] @ '')]'' @ nl @ nl
        @ ''Pregunta:'' @ nl @ ''Pizza'' @ nl @ nl
        @ ''Respuesta:'' @ nl]"
proof -
  have calm: "retrieval_error calm = None"
    by (simp add: calm_def)
  have none: "llm_calls stocked_state = []"
    by (simp add: stocked_state_def)
  show ?thesis
    using rag_chain_prompt [of calm sample_ext "''Pizza''" stocked_state] calm
    by (simp only: stocked_context none) simp
qed

text \<open>
  The wording of the specification does not hold: with three chunks retrieved, the
  text under \<^verbatim>\<open>Contexto:\<close> is not the concatenation of the chunk texts.
\<close>

theorem rag_chain_prompt_counterexample:
  "llm_calls (snd (rag_chain sample_ext calm ''Pizza'' stocked_state)) \<noteq>
     [system_instruction
      @ ''Contexto:'' @ nl
      @ concat (map page_content (retriever sample_ext ''Pizza'' (index stocked_state))) @ nl @ nl
      @ ''Pregunta:'' @ nl @ ''Pizza'' @ nl @ nl
      @ ''Respuesta:'' @ nl]"
  by (simp add: rag_chain_cases prompt_template_def py_str_list_def calm_def stocked_state_def
        retriever_def similarity_search_def sample_ext_def bootstrap_document_def)

text \<open>
  C5, as the code has it. The retriever returns the three entries of the index nearest
  to the question, or all of them when the index holds fewer than three: the number
  retrieved is the smaller of 3 and the size of the index, the entries retrieved are
  entries of the index, and none of the entries left out is nearer to the question
  than one retrieved. These documents are the context of the prompt.
\<close>

theorem retriever_nearest:
  "length (retriever ext q idx) = min 3 (length idx)
   \<and> (\<exists>rest. mset idx = mset (retriever ext q idx) + mset rest
        \<and> (\<forall>x\<in>set (retriever ext q idx). \<forall>y\<in>set rest.
              distance ext q (page_content x) \<le> distance ext q (page_content y)))
   \<and> (retrieval_error oc = None \<longrightarrow>
        llm_calls (snd (rag_chain ext oc q st)) =
          llm_calls st @ [prompt_template (py_str_list (map (doc_repr ext) (retriever ext q (index st)))) q])"
proof -
  let ?f = "\<lambda>d. distance ext q (page_content d)"
  let ?s = "sort_key ?f idx"
  have len: "length (retriever ext q idx) = min 3 (length idx)"
    by (simp add: retriever_def similarity_search_def)
  have "mset idx = mset (take 3 ?s) + mset (drop 3 ?s)"
    by (simp flip: mset_append)
  moreover have "\<forall>x\<in>set (take 3 ?s). \<forall>y\<in>set (drop 3 ?s). ?f x \<le> ?f y"
    by (rule sorted_take_drop) (rule sorted_sort_key)
  ultimately have near: "\<exists>rest. mset idx = mset (retriever ext q idx) + mset rest
        \<and> (\<forall>x\<in>set (retriever ext q idx). \<forall>y\<in>set rest. ?f x \<le> ?f y)"
    unfolding retriever_def similarity_search_def by blast
  show ?thesis
    using len near by (simp add: rag_chain_cases)
qed

theorem retriever_nearest_witness:
  "length (index stocked_state) = 4
   \<and> length (retriever sample_ext ''Pizza'' (index stocked_state)) = 3
   \<and> map page_content (retriever sample_ext ''Pizza'' (index stocked_state)) =
       [''Pizza $10'', ''Pasta $12'', ''Flan $5'']"
  using retriever_nearest [of sample_ext "''Pizza''" "index stocked_state" calm stocked_state]
  by (simp add: stocked_state_def retriever_def similarity_search_def sample_ext_def
        bootstrap_document_def)

text \<open>
  The wording of the specification does not hold on the freshly created index, which
  holds the placeholder only: one document is retrieved, not three.
\<close>

theorem retriever_nearest_counterexample:
  "length (retriever sample_ext ''Pizza'' (index bootstrapped_state)) \<noteq> 3"
  by (simp add: retriever_def similarity_search_def bootstrapped_state_def)

text \<open>
  C10. /api/chat validates nothing about the question. For every question string, the
  empty one included, the answer is either 200 or 500; it is 500 exactly when the chain,
  invoked on that very question, raises, and otherwise it is the chain's answer; when
  retrieval succeeds the prompt built from the unchanged question is what the LLM
  receives.
\<close>

theorem handle_chat_accepts_any_question:
  "(status_code (fst (handle_chat ext oc q st)) = 200 \<or> status_code (fst (handle_chat ext oc q st)) = 500)
   \<and> ((status_code (fst (handle_chat ext oc q st)) = 500) = (\<exists>e. fst (rag_chain ext oc q st) = Inl e))
   \<and> (\<forall>a. fst (rag_chain ext oc q st) = Inr a \<longrightarrow> fst (handle_chat ext oc q st) = ok (Answer a))
   \<and> snd (handle_chat ext oc q st) = snd (rag_chain ext oc q st)
   \<and> (retrieval_error oc = None \<longrightarrow>
        llm_calls (snd (handle_chat ext oc q st)) =
          llm_calls st @ [prompt_template (py_str_list (map (doc_repr ext) (retriever ext q (index st)))) q])"
proof (cases "rag_chain ext oc q st")
  case (Pair r st')
  show ?thesis
  proof (cases r)
    case (Inl e)
    with Pair show ?thesis
      by (auto simp: handle_chat_def HTTPException_def ok_def rag_chain_cases split: option.splits)
  next
    case (Inr a)
    with Pair show ?thesis
      by (auto simp: handle_chat_def HTTPException_def ok_def rag_chain_cases split: option.splits)
  qed
qed

theorem handle_chat_accepts_any_question_witness:
  "retrieval_error calm = None
   \<and> fst (handle_chat sample_ext calm [] bootstrapped_state) = ok (Answer ''No tengo esa informacion.'')
   \<and> llm_calls (snd (handle_chat sample_ext calm [] bootstrapped_state)) =
       [prompt_template
          (py_str_list (map (doc_repr sample_ext) (retriever sample_ext [] (index bootstrapped_state)))) []]"
  using handle_chat_accepts_any_question [of sample_ext calm "[]" bootstrapped_state]
  by (simp add: calm_def bootstrapped_state_def rag_chain_cases)

section \<open>Ingestion pipeline\<close>

lemma load_split_add_cases:
  "load_split_add ext oc path st =
     (case files st path of
        None \<Rightarrow> (Inl (Exn (''File path '' @ path @ '' is not a valid file or url'')), st)
      | Some bytes \<Rightarrow>
          (case pdf_pages ext bytes of
             Inl e \<Rightarrow> (Inl e, st)
           | Inr pages \<Rightarrow>
               (case split_error oc of
                  Some e \<Rightarrow> (Inl e, st)
                | None \<Rightarrow>
                    (case add_error oc of
                       Some e \<Rightarrow> (Inl e, st)
                     | None \<Rightarrow>
                         (Inr (), st\<lparr>index := index st
                                      @ chunk_documents ext (page_documents path pages)\<rparr>)))))"
  by (simp add: load_split_add_def PyPDFLoader_load_def split_documents_def add_documents_def
        split: option.splits sum.splits)

lemma load_split_add_failure:
  "fst (load_split_add ext oc path st) = Inl e \<Longrightarrow> snd (load_split_add ext oc path st) = st"
  by (simp add: load_split_add_cases split: option.splits sum.splits)

lemma load_split_add_grows:
  "\<exists>added. index (snd (load_split_add ext oc path st)) = index st @ added"
  by (simp add: load_split_add_cases split: option.splits sum.splits)

lemma write_upload_ok:
  "write_error oc = None \<Longrightarrow>
   write_upload oc file st =
     (Inr (), Some (tmp_name oc), st\<lparr>files := (files st)(tmp_name oc \<mapsto> data file)\<rparr>)"
  by (simp add: write_upload_def)

lemma write_upload_index:
  "index (snd (snd (write_upload oc file st))) = index st"
  by (simp add: write_upload_def split: option.splits write_failure.splits)

lemma process_upload_cases:
  "process_and_update_vector_store ext oc file st =
     (case tmp_create_error oc of
        Some e \<Rightarrow> (Inl e, st)
      | None \<Rightarrow>
          (case write_upload oc file st of
             (Inl e, tmp_file_path, st1) \<Rightarrow> (Inl e, finally_cleanup tmp_file_path st1)
           | (Inr u, tmp_file_path, st1) \<Rightarrow>
               (case pdf_pages ext (data file) of
                  Inl e \<Rightarrow> (Inl e, st\<lparr>files := (files st)(tmp_name oc := None)\<rparr>)
                | Inr pages \<Rightarrow>
                    (case split_error oc of
                       Some e \<Rightarrow> (Inl e, st\<lparr>files := (files st)(tmp_name oc := None)\<rparr>)
                     | None \<Rightarrow>
                         (case add_error oc of
                            Some e \<Rightarrow> (Inl e, st\<lparr>files := (files st)(tmp_name oc := None)\<rparr>)
                          | None \<Rightarrow>
                              (Inr (), st\<lparr>files := (files st)(tmp_name oc := None),
                                          index := index st
                                            @ chunk_documents ext (page_documents (tmp_name oc) pages)\<rparr>))))))"
  by (auto simp: process_and_update_vector_store_def process_upload_try_def write_upload_def
        finally_cleanup_def load_split_add_cases Let_def
        split: option.splits sum.splits write_failure.splits)

lemma process_pdf_from_path_cases:
  "process_pdf_from_path ext oc path st = load_split_add ext oc path st"
  by (simp add: process_pdf_from_path_def)

lemma upload_pdf_cases:
  "content_type file = Some ''application/pdf'' \<Longrightarrow>
   upload_pdf ext oc file st =
     (case fst (process_and_update_vector_store ext oc file st) of
        Inr u \<Rightarrow>
          (ok (Message ''Nuevo PDF procesado y base de datos vectorial actualizada exitosamente.''),
           snd (process_and_update_vector_store ext oc file st))
      | Inl e \<Rightarrow>
          (HTTPException 500 (''Ocurri'' @ o_acute @ '' un error al procesar el archivo PDF: '' @ str_exn e),
           snd (process_and_update_vector_store ext oc file st)))"
  by (simp add: upload_pdf_def split: prod.splits sum.splits)

lemma restore_files:
  "p \<notin> dom (files st) \<Longrightarrow> st\<lparr>files := (files st)(p := None)\<rparr> = st"
  by (simp add: domIff)

lemma sample_pages:
  "pdf_pages sample_ext (data menu_upload) = Inr [''Menu: Pizza $10'']"
  "pdf_pages sample_ext (data blank_upload) = Inr [[]]"
  "pdf_pages sample_ext (data broken_upload) = Inl (Exn ''invalid pdf header'')"
  "pdf_pages sample_ext (data two_page_upload) = Inr [''Pizza $10'', ''Pasta $12'']"
  by (simp_all add: sample_ext_def menu_upload_def blank_upload_def broken_upload_def
        two_page_upload_def)

lemma sample_chunks:
  "chunk_documents sample_ext (page_documents p [''Menu: Pizza $10'']) =
     [\<lparr>page_content = ''Menu: Pizza $10'', metadata = [(''source'', MStr p), (''page'', MInt 0)]\<rparr>]"
  "chunk_documents sample_ext (page_documents p [[]]) = []"
  "chunk_documents sample_ext (page_documents p [''Pizza $10'', ''Pasta $12'']) =
     [\<lparr>page_content = ''Pizza $10'', metadata = [(''source'', MStr p), (''page'', MInt 0)]\<rparr>,
      \<lparr>page_content = ''Pasta $12'', metadata = [(''source'', MStr p), (''page'', MInt 1)]\<rparr>]"
  by (simp_all add: chunk_documents_def page_documents_def sample_ext_def upt_rec)

lemma calm_fields:
  "tmp_create_error calm = None" "write_error calm = None" "split_error calm = None"
  "add_error calm = None" "retrieval_error calm = None" "bootstrap_error calm = None"
  "tmp_name calm = ''/tmp/tmpk3v9x2ab.pdf''"
  by (simp_all add: calm_def)

lemma store_down_fields:
  "tmp_create_error store_down = None" "write_error store_down = None"
  "split_error store_down = None"
  "add_error store_down = Some (Exn ''embedding service unreachable'')"
  by (simp_all add: store_down_def calm_def)

lemma disk_full_fields:
  "tmp_create_error disk_full = None"
  "write_error disk_full = Some (DeviceRefuses (Exn ''[Errno 28] No space left on device''))"
  "tmp_name disk_full = ''/tmp/tmpk3v9x2ab.pdf''"
  "buffer_size disk_full = 8192"
  "written disk_full = 0"
  by (simp_all add: disk_full_def calm_def)

lemma sample_content_types:
  "content_type menu_upload = Some ''application/pdf''"
  "content_type blank_upload = Some ''application/pdf''"
  "content_type broken_upload = Some ''application/pdf''"
  "content_type two_page_upload = Some ''application/pdf''"
  "content_type large_upload = Some ''application/pdf''"
  by (simp_all add: menu_upload_def blank_upload_def broken_upload_def two_page_upload_def
        large_upload_def)

text \<open>
  C1, as the code has it. For an uploaded PDF and for a PDF read from a path alike: if
  text extraction fails, the error reaches the caller (the upload endpoint answers 500
  with its message) and the vector index is unchanged; the temporary file of an upload
  is gone again, so the state is what it was. More generally, whenever the ingestion
  fails, the index is unchanged. If creating and writing the temporary file, extraction,
  splitting and the write to the index all succeed, the chunks obtained from the
  splitter are appended to the end of the index, in order, however many they are; the
  service returns no value and the endpoint answers 200 with a fixed message.
\<close>

theorem ingestion_contract:
  "(\<forall>e. tmp_create_error oc = None \<and> write_error oc = None \<and> pdf_pages ext (data file) = Inl e \<longrightarrow>
        fst (process_and_update_vector_store ext oc file st) = Inl e
      \<and> index (snd (process_and_update_vector_store ext oc file st)) = index st
      \<and> (tmp_name oc \<notin> dom (files st) \<longrightarrow> snd (process_and_update_vector_store ext oc file st) = st)
      \<and> (content_type file = Some ''application/pdf'' \<longrightarrow>
           fst (upload_pdf ext oc file st) =
             HTTPException 500 (''Ocurri'' @ o_acute @ '' un error al procesar el archivo PDF: '' @ str_exn e)))
   \<and> (\<forall>e. fst (process_and_update_vector_store ext oc file st) = Inl e \<longrightarrow>
        index (snd (process_and_update_vector_store ext oc file st)) = index st)
   \<and> (\<forall>pages. tmp_create_error oc = None \<and> write_error oc = None
        \<and> pdf_pages ext (data file) = Inr pages \<and> split_error oc = None \<and> add_error oc = None \<longrightarrow>
        fst (process_and_update_vector_store ext oc file st) = Inr ()
      \<and> index (snd (process_and_update_vector_store ext oc file st)) =
          index st @ chunk_documents ext (page_documents (tmp_name oc) pages)
      \<and> (content_type file = Some ''application/pdf'' \<longrightarrow>
           fst (upload_pdf ext oc file st) =
             ok (Message ''Nuevo PDF procesado y base de datos vectorial actualizada exitosamente.'')))
   \<and> (\<forall>bytes e. files st path = Some bytes \<and> pdf_pages ext bytes = Inl e \<longrightarrow>
        process_pdf_from_path ext oc path st = (Inl e, st))
   \<and> (\<forall>e. fst (process_pdf_from_path ext oc path st) = Inl e \<longrightarrow>
        snd (process_pdf_from_path ext oc path st) = st)
   \<and> (\<forall>bytes pages. files st path = Some bytes \<and> pdf_pages ext bytes = Inr pages
        \<and> split_error oc = None \<and> add_error oc = None \<longrightarrow>
        process_pdf_from_path ext oc path st =
          (Inr (), st\<lparr>index := index st @ chunk_documents ext (page_documents path pages)\<rparr>))"
proof -
  have extraction: "\<forall>e. tmp_create_error oc = None \<and> write_error oc = None
        \<and> pdf_pages ext (data file) = Inl e \<longrightarrow>
        fst (process_and_update_vector_store ext oc file st) = Inl e
      \<and> index (snd (process_and_update_vector_store ext oc file st)) = index st
      \<and> (tmp_name oc \<notin> dom (files st) \<longrightarrow> snd (process_and_update_vector_store ext oc file st) = st)
      \<and> (content_type file = Some ''application/pdf'' \<longrightarrow>
           fst (upload_pdf ext oc file st) =
             HTTPException 500 (''Ocurri'' @ o_acute @ '' un error al procesar el archivo PDF: '' @ str_exn e))"
    by (simp add: upload_pdf_cases process_upload_cases write_upload_ok restore_files)
  have failure: "\<forall>e. fst (process_and_update_vector_store ext oc file st) = Inl e \<longrightarrow>
        index (snd (process_and_update_vector_store ext oc file st)) = index st"
    by (simp add: process_upload_cases write_upload_def finally_cleanup_def
          split: option.splits sum.splits write_failure.splits)
  have success: "\<forall>pages. tmp_create_error oc = None \<and> write_error oc = None
        \<and> pdf_pages ext (data file) = Inr pages \<and> split_error oc = None \<and> add_error oc = None \<longrightarrow>
        fst (process_and_update_vector_store ext oc file st) = Inr ()
      \<and> index (snd (process_and_update_vector_store ext oc file st)) =
          index st @ chunk_documents ext (page_documents (tmp_name oc) pages)
      \<and> (content_type file = Some ''application/pdf'' \<longrightarrow>
           fst (upload_pdf ext oc file st) =
             ok (Message ''Nuevo PDF procesado y base de datos vectorial actualizada exitosamente.''))"
    by (simp add: upload_pdf_cases process_upload_cases write_upload_ok)
  have path_extraction: "\<forall>bytes e. files st path = Some bytes \<and> pdf_pages ext bytes = Inl e \<longrightarrow>
        process_pdf_from_path ext oc path st = (Inl e, st)"
    by (simp add: process_pdf_from_path_cases load_split_add_cases)
  have path_failure: "\<forall>e. fst (process_pdf_from_path ext oc path st) = Inl e \<longrightarrow>
        snd (process_pdf_from_path ext oc path st) = st"
    by (simp add: process_pdf_from_path_cases load_split_add_failure)
  have path_success: "\<forall>bytes pages. files st path = Some bytes \<and> pdf_pages ext bytes = Inr pages
        \<and> split_error oc = None \<and> add_error oc = None \<longrightarrow>
        process_pdf_from_path ext oc path st =
          (Inr (), st\<lparr>index := index st @ chunk_documents ext (page_documents path pages)\<rparr>)"
    by (simp add: process_pdf_from_path_cases load_split_add_cases)
  from extraction failure success path_extraction path_failure path_success
  show ?thesis by blast
qed

theorem ingestion_contract_witness:
  "pdf_pages sample_ext (data broken_upload) = Inl (Exn ''invalid pdf header'')
   \<and> upload_pdf sample_ext calm broken_upload bootstrapped_state =
       (HTTPException 500 (''Ocurri'' @ o_acute @ '' un error al procesar el archivo PDF: ''
                           @ ''invalid pdf header''), bootstrapped_state)
   \<and> pdf_pages sample_ext (data menu_upload) = Inr [''Menu: Pizza $10'']
   \<and> fst (upload_pdf sample_ext calm menu_upload bootstrapped_state) =
       ok (Message ''Nuevo PDF procesado y base de datos vectorial actualizada exitosamente.'')
   \<and> index (snd (process_and_update_vector_store sample_ext calm menu_upload bootstrapped_state)) =
       [bootstrap_document,
        \<lparr>page_content = ''Menu: Pizza $10'',
         metadata = [(''source'', MStr ''/tmp/tmpk3v9x2ab.pdf''), (''page'', MInt 0)]\<rparr>]"
proof -
  have fresh: "tmp_name calm \<notin> dom (files bootstrapped_state)"
    by (simp add: bootstrapped_state_def)
  have idx: "index bootstrapped_state = [bootstrap_document]"
    by (simp add: bootstrapped_state_def)
  have broken: "upload_pdf sample_ext calm broken_upload bootstrapped_state =
       (HTTPException 500 (''Ocurri'' @ o_acute @ '' un error al procesar el archivo PDF: ''
                           @ ''invalid pdf header''), bootstrapped_state)"
    using ingestion_contract [of calm sample_ext broken_upload bootstrapped_state "''app/data/menu.pdf''"] fresh
    by (simp add: calm_fields sample_pages sample_content_types upload_pdf_cases)
  have menu: "fst (upload_pdf sample_ext calm menu_upload bootstrapped_state) =
       ok (Message ''Nuevo PDF procesado y base de datos vectorial actualizada exitosamente.'')
     \<and> index (snd (process_and_update_vector_store sample_ext calm menu_upload bootstrapped_state)) =
       [bootstrap_document,
        \<lparr>page_content = ''Menu: Pizza $10'',
         metadata = [(''source'', MStr ''/tmp/tmpk3v9x2ab.pdf''), (''page'', MInt 0)]\<rparr>]"
    using ingestion_contract [of calm sample_ext menu_upload bootstrapped_state "''app/data/menu.pdf''"]
    by (simp add: calm_fields sample_pages sample_content_types sample_chunks idx)
  show ?thesis
    using broken menu by (simp add: sample_pages)
qed

text \<open>
  The wording of the specification does not hold. Extraction of the sample menu
  succeeds, yet with the store unreachable the endpoint answers 500 and nothing is
  appended. Extraction of the blank PDF succeeds and there is no chunk to append: the
  index is unchanged, whether the store takes the empty batch or refuses it. And the
  upload of one chunk and the upload of two chunks get the same answer, while the
  service returns the unit value: no count reaches the caller.
\<close>

theorem ingestion_contract_counterexample:
  "pdf_pages sample_ext (data menu_upload) = Inr [''Menu: Pizza $10'']
   \<and> status_code (fst (upload_pdf sample_ext store_down menu_upload bootstrapped_state)) = 500
   \<and> index (snd (upload_pdf sample_ext store_down menu_upload bootstrapped_state)) =
       index bootstrapped_state
   \<and> pdf_pages sample_ext (data blank_upload) = Inr [[]]
   \<and> index (snd (upload_pdf sample_ext calm blank_upload bootstrapped_state)) =
       index bootstrapped_state
   \<and> index (snd (upload_pdf sample_ext store_down blank_upload bootstrapped_state)) =
       index bootstrapped_state
   \<and> length (index (snd (upload_pdf sample_ext calm menu_upload bootstrapped_state))) =
       length (index bootstrapped_state) + 1
   \<and> length (index (snd (upload_pdf sample_ext calm two_page_upload bootstrapped_state))) =
       length (index bootstrapped_state) + 2
   \<and> fst (upload_pdf sample_ext calm menu_upload bootstrapped_state) =
       fst (upload_pdf sample_ext calm two_page_upload bootstrapped_state)
   \<and> fst (process_and_update_vector_store sample_ext calm two_page_upload bootstrapped_state) = Inr ()"
  by (simp add: upload_pdf_cases process_upload_cases write_upload_ok sample_content_types
        sample_pages sample_chunks calm_fields store_down_fields HTTPException_def ok_def)

lemma temp_file_kept_iff:
  assumes "tmp_name oc \<notin> dom (files st)"
  shows "tmp_name oc \<in> dom (files (snd (process_and_update_vector_store ext oc file st))) \<longleftrightarrow>
           tmp_create_error oc = None
           \<and> ((\<exists>e. write_error oc = Some (ReadRaises e))
              \<or> (\<exists>e. write_error oc = Some (DeviceRefuses e)) \<and> buffer_size oc < length (data file))"
  using assms
  by (auto simp: process_upload_cases write_upload_def finally_cleanup_def
        split: option.splits sum.splits write_failure.splits)

lemma temp_file_removed_when_close_fails:
  "fst (process_and_update_vector_store sample_ext disk_full menu_upload bootstrapped_state) =
     Inl (Exn ''[Errno 28] No space left on device'')
   \<and> tmp_name disk_full \<notin>
       dom (files (snd (process_and_update_vector_store sample_ext disk_full menu_upload bootstrapped_state)))"
  by (simp add: process_upload_cases write_upload_def finally_cleanup_def disk_full_fields
        menu_upload_def)

text \<open>
  C3. The temporary file is removed on every path on which \<^verbatim>\<open>tmp_file_path\<close> has been
  bound: success, a failing load, split or upsert, and a write error that surfaces only
  when the file is closed (\<open>temp_file_kept_iff\<close>,
  \<open>temp_file_removed_when_close_fails\<close>). It is left behind where the write of the
  uploaded bytes itself raises. Here the body has 1000005 bytes, more than the buffer of
  8192, and the device is full: \<^verbatim>\<open>write\<close> raises, the file has been created,
  \<^verbatim>\<open>tmp_file_path\<close> is not yet bound, the \<^verbatim>\<open>finally\<close> block skips the removal, and
  the file is still there when the operation returns with the error.
\<close>

theorem temp_file_left_after_failed_write:
  "length (data large_upload) = 1000005
   \<and> buffer_size disk_full = 8192
   \<and> tmp_name disk_full \<notin> dom (files bootstrapped_state)
   \<and> fst (process_and_update_vector_store sample_ext disk_full large_upload bootstrapped_state) =
       Inl (Exn ''[Errno 28] No space left on device'')
   \<and> tmp_name disk_full \<in>
       dom (files (snd (process_and_update_vector_store sample_ext disk_full large_upload bootstrapped_state)))
   \<and> fst (upload_pdf sample_ext disk_full large_upload bootstrapped_state) =
       HTTPException 500 (''Ocurri'' @ o_acute @ '' un error al procesar el archivo PDF: ''
                          @ ''[Errno 28] No space left on device'')"
  by (simp add: upload_pdf_cases process_upload_cases write_upload_def finally_cleanup_def
        disk_full_fields sample_content_types)
     (simp add: large_upload_def bootstrapped_state_def)

section \<open>Append-only index\<close>

lemma page_documents_texts:
  "map page_content (page_documents p pages) = pages"
proof -
  have "map page_content (page_documents p pages) = map snd (zip [0..<length pages] pages)"
    by (simp add: page_documents_def split_def comp_def)
  then show ?thesis by simp
qed

lemma chunk_documents_texts:
  "map page_content (chunk_documents ext documents) =
     concat (map (split_text ext 1000 100) (map page_content documents))"
  by (induction documents) (simp_all add: chunk_documents_def comp_def)

lemma chunk_texts:
  "map page_content (chunk_documents ext (page_documents p pages)) =
     concat (map (split_text ext 1000 100) pages)"
  by (simp add: chunk_documents_texts page_documents_texts)

lemma upload_pdf_ok:
  assumes "status_code (fst (upload_pdf ext oc file st)) = 200"
  shows "\<exists>pages. pdf_pages ext (data file) = Inr pages
           \<and> index (snd (upload_pdf ext oc file st)) =
               index st @ chunk_documents ext (page_documents (tmp_name oc) pages)"
proof -
  have pdf: "content_type file = Some ''application/pdf''"
    using assms by (auto simp: upload_pdf_def HTTPException_def split: if_splits)
  show ?thesis
    using assms
    by (auto simp: upload_pdf_cases [OF pdf] process_upload_cases write_upload_def
          HTTPException_def ok_def
          split: option.splits sum.splits write_failure.splits if_splits)
qed

lemma upload_pdf_grows:
  "\<exists>added. index (snd (upload_pdf ext oc file st)) = index st @ added"
proof (cases "content_type file = Some ''application/pdf''")
  case True
  then show ?thesis
    by (auto simp: upload_pdf_cases process_upload_cases write_upload_def finally_cleanup_def
          split: option.splits sum.splits write_failure.splits)
next
  case False
  then show ?thesis
    by (simp add: upload_pdf_def)
qed

lemma get_vector_store_grows:
  "\<exists>added. index (snd (get_vector_store oc st)) = index st @ added"
  by (simp add: get_vector_store_def Let_def split: option.splits)

lemma lifespan_grows:
  "\<exists>added. index (lifespan ext oc st) = index st @ added"
  using load_split_add_grows [of ext oc "''app/data/menu.pdf''" st]
  by (simp add: lifespan_def process_pdf_from_path_def)

lemma startup_grows:
  "\<exists>added. index (startup ext oc st) = index st @ added"
proof (cases "get_vector_store oc st")
  case (Pair r st1)
  from get_vector_store_grows [of oc st] Pair
  obtain a where a: "index st1 = index st @ a" by auto
  show ?thesis
  proof (cases r)
    case (Inl e)
    with Pair a show ?thesis by (simp add: startup_def)
  next
    case (Inr u)
    from lifespan_grows [of ext oc "st1\<lparr>fcm_tokens := {}\<rparr>"]
    obtain b where "index (lifespan ext oc (st1\<lparr>fcm_tokens := {}\<rparr>)) = index st1 @ b" by auto
    with Pair Inr a show ?thesis by (simp add: startup_def)
  qed
qed

lemma handle_chat_index:
  "index (snd (handle_chat ext oc q st)) = index st"
  by (simp add: handle_chat_def rag_chain_cases split: option.splits sum.splits)

lemma register_fcm_token_index:
  "index (snd (register_fcm_token t st)) = index st"
  by (simp add: register_fcm_token_def)

lemma send_notification_index:
  "index (snd (send_notification_to_all oc title body st)) = index st"
  by (simp add: send_notification_to_all_def Let_def split: sum.splits)

lemma step_grows:
  "\<exists>added. index (step ext oc operation st) = index st @ added"
proof (cases operation)
  case Startup
  then show ?thesis by (simp add: step_def startup_grows)
next
  case (Chat q)
  then show ?thesis by (simp add: step_def handle_chat_index)
next
  case (UploadPdf upl)
  then show ?thesis by (simp add: step_def upload_pdf_grows)
next
  case (RegisterToken t)
  then show ?thesis by (simp add: step_def register_fcm_token_index)
next
  case (SendNotification title body)
  then show ?thesis by (simp add: step_def send_notification_index)
next
  case HealthCheck
  then show ?thesis by (simp add: step_def health_check_def)
next
  case Root
  then show ?thesis by (simp add: step_def root_def)
qed

lemma run_grows:
  "\<exists>added. index (run ext ops st) = index st @ added"
proof (induction ops arbitrary: st)
  case Nil
  show ?case by simp
next
  case (Cons a ops)
  obtain oc operation where a: "a = (oc, operation)" by (cases a)
  from step_grows [of ext oc operation st]
  obtain x where x: "index (step ext oc operation st) = index st @ x" by auto
  from Cons.IH [of "step ext oc operation st"]
  obtain y where "index (run ext ops (step ext oc operation st)) = index (step ext oc operation st) @ y"
    by auto
  with a x show ?case by simp
qed

lemma twice_counted:
  assumes "texts_after = texts_before @ texts @ texts"
  shows "\<forall>t\<in>set texts. 2 \<le> count_list texts_after t"
proof
  fix t assume "t \<in> set texts"
  then have "1 \<le> count_list texts t"
    using count_list_0_iff [of texts t] by (cases "count_list texts t") auto
  then show "2 \<le> count_list texts_after t"
    by (simp add: assms)
qed

lemma process_pdf_from_path_ok:
  assumes "fst (process_pdf_from_path ext oc path st) = Inr ()"
  shows "\<exists>bytes pages. files st path = Some bytes \<and> pdf_pages ext bytes = Inr pages
           \<and> snd (process_pdf_from_path ext oc path st) =
               st\<lparr>index := index st @ chunk_documents ext (page_documents path pages)\<rparr>"
  using assms
  by (auto simp: process_pdf_from_path_cases load_split_add_cases split: option.splits sum.splits)

lemma startup_menu:
  assumes "persist_dir st = Some listing" and "listing \<noteq> []"
    and "files st ''app/data/menu.pdf'' = Some bytes" and "pdf_pages ext bytes = Inr pages"
    and "split_error oc = None" and "add_error oc = None"
  shows "startup ext oc st =
           st\<lparr>fcm_tokens := {},
              index := index st @ chunk_documents ext (page_documents ''app/data/menu.pdf'' pages)\<rparr>"
  using assms
  by (simp add: startup_def get_vector_store_def lifespan_def process_pdf_from_path_cases
        load_split_add_cases domIff)

text \<open>
  C6. If the same file is ingested twice, the texts in the index afterwards are the
  texts before, followed by the file's chunk texts, followed by the file's chunk texts
  again, so each of them occurs at least twice. This holds for two uploads that are both
  answered 200, for two ingestions from the same path that both return, and for two
  process starts that both index the default menu. And over every sequence of
  operations (process starts, chats, uploads, token registrations, notifications, health
  checks), whatever the environment does, the index at the end is the index at the
  beginning with entries appended: no entry is deleted, replaced or reordered, and the
  number of entries never decreases.
\<close>

theorem index_append_only:
  "(status_code (fst (upload_pdf ext oc1 pdf st)) = 200
     \<and> status_code (fst (upload_pdf ext oc2 pdf (snd (upload_pdf ext oc1 pdf st)))) = 200 \<longrightarrow>
      (\<exists>pages. pdf_pages ext (data pdf) = Inr pages
         \<and> map page_content (index (snd (upload_pdf ext oc2 pdf (snd (upload_pdf ext oc1 pdf st))))) =
             map page_content (index st)
             @ concat (map (split_text ext 1000 100) pages)
             @ concat (map (split_text ext 1000 100) pages)
         \<and> (\<forall>t\<in>set (concat (map (split_text ext 1000 100) pages)).
               2 \<le> count_list
                     (map page_content
                        (index (snd (upload_pdf ext oc2 pdf (snd (upload_pdf ext oc1 pdf st)))))) t)))
   \<and> (fst (process_pdf_from_path ext oc1 path st) = Inr ()
     \<and> fst (process_pdf_from_path ext oc2 path (snd (process_pdf_from_path ext oc1 path st))) = Inr () \<longrightarrow>
      (\<exists>bytes pages. files st path = Some bytes \<and> pdf_pages ext bytes = Inr pages
         \<and> map page_content
              (index (snd (process_pdf_from_path ext oc2 path (snd (process_pdf_from_path ext oc1 path st))))) =
             map page_content (index st)
             @ concat (map (split_text ext 1000 100) pages)
             @ concat (map (split_text ext 1000 100) pages)
         \<and> (\<forall>t\<in>set (concat (map (split_text ext 1000 100) pages)).
               2 \<le> count_list
                     (map page_content
                        (index (snd (process_pdf_from_path ext oc2 path
                                      (snd (process_pdf_from_path ext oc1 path st)))))) t)))
   \<and> (\<forall>listing bytes pages.
        persist_dir st = Some listing \<and> listing \<noteq> []
        \<and> files st ''app/data/menu.pdf'' = Some bytes \<and> pdf_pages ext bytes = Inr pages
        \<and> split_error oc1 = None \<and> add_error oc1 = None
        \<and> split_error oc2 = None \<and> add_error oc2 = None \<longrightarrow>
          map page_content (index (startup ext oc2 (startup ext oc1 st))) =
            map page_content (index st)
            @ concat (map (split_text ext 1000 100) pages)
            @ concat (map (split_text ext 1000 100) pages)
        \<and> (\<forall>t\<in>set (concat (map (split_text ext 1000 100) pages)).
              2 \<le> count_list (map page_content (index (startup ext oc2 (startup ext oc1 st)))) t))
   \<and> (\<exists>added. index (run ext ops st) = index st @ added)
   \<and> length (index st) \<le> length (index (run ext ops st))"
proof -
  have uploads: "\<exists>pages. pdf_pages ext (data pdf) = Inr pages
         \<and> map page_content (index (snd (upload_pdf ext oc2 pdf (snd (upload_pdf ext oc1 pdf st))))) =
             map page_content (index st)
             @ concat (map (split_text ext 1000 100) pages)
             @ concat (map (split_text ext 1000 100) pages)
         \<and> (\<forall>t\<in>set (concat (map (split_text ext 1000 100) pages)).
               2 \<le> count_list
                     (map page_content
                        (index (snd (upload_pdf ext oc2 pdf (snd (upload_pdf ext oc1 pdf st)))))) t)"
    if first: "status_code (fst (upload_pdf ext oc1 pdf st)) = 200"
      and second: "status_code (fst (upload_pdf ext oc2 pdf (snd (upload_pdf ext oc1 pdf st)))) = 200"
  proof -
    let ?st1 = "snd (upload_pdf ext oc1 pdf st)"
    let ?st2 = "snd (upload_pdf ext oc2 pdf ?st1)"
    from upload_pdf_ok [OF first] obtain pages where
      pages: "pdf_pages ext (data pdf) = Inr pages"
      and i1: "index ?st1 = index st @ chunk_documents ext (page_documents (tmp_name oc1) pages)"
      by auto
    from upload_pdf_ok [OF second] pages have
      i2: "index ?st2 = index ?st1 @ chunk_documents ext (page_documents (tmp_name oc2) pages)"
      by auto
    let ?texts = "concat (map (split_text ext 1000 100) pages)"
    have texts: "map page_content (index ?st2) = map page_content (index st) @ ?texts @ ?texts"
      by (simp add: i1 i2 chunk_texts)
    from pages texts twice_counted [OF texts] show ?thesis by blast
  qed
  have paths: "\<exists>bytes pages. files st path = Some bytes \<and> pdf_pages ext bytes = Inr pages
         \<and> map page_content
              (index (snd (process_pdf_from_path ext oc2 path (snd (process_pdf_from_path ext oc1 path st))))) =
             map page_content (index st)
             @ concat (map (split_text ext 1000 100) pages)
             @ concat (map (split_text ext 1000 100) pages)
         \<and> (\<forall>t\<in>set (concat (map (split_text ext 1000 100) pages)).
               2 \<le> count_list
                     (map page_content
                        (index (snd (process_pdf_from_path ext oc2 path
                                      (snd (process_pdf_from_path ext oc1 path st)))))) t)"
    if first: "fst (process_pdf_from_path ext oc1 path st) = Inr ()"
      and second: "fst (process_pdf_from_path ext oc2 path (snd (process_pdf_from_path ext oc1 path st))) = Inr ()"
  proof -
    let ?st1 = "snd (process_pdf_from_path ext oc1 path st)"
    let ?st2 = "snd (process_pdf_from_path ext oc2 path ?st1)"
    from process_pdf_from_path_ok [OF first] obtain bytes pages where
      bytes: "files st path = Some bytes" and pages: "pdf_pages ext bytes = Inr pages"
      and s1: "?st1 = st\<lparr>index := index st @ chunk_documents ext (page_documents path pages)\<rparr>"
      by auto
    have "files ?st1 path = Some bytes"
      by (simp add: s1 bytes)
    with process_pdf_from_path_ok [OF second] pages have
      s2: "?st2 = ?st1\<lparr>index := index ?st1 @ chunk_documents ext (page_documents path pages)\<rparr>"
      by auto
    let ?texts = "concat (map (split_text ext 1000 100) pages)"
    have "index ?st2 = index ?st1 @ chunk_documents ext (page_documents path pages)"
      by (subst s2) simp
    moreover have "index ?st1 = index st @ chunk_documents ext (page_documents path pages)"
      by (subst s1) simp
    ultimately have texts: "map page_content (index ?st2) = map page_content (index st) @ ?texts @ ?texts"
      by (simp add: chunk_texts)
    from bytes pages texts twice_counted [OF texts] show ?thesis by blast
  qed
  have starts: "map page_content (index (startup ext oc2 (startup ext oc1 st))) =
            map page_content (index st)
            @ concat (map (split_text ext 1000 100) pages)
            @ concat (map (split_text ext 1000 100) pages)
        \<and> (\<forall>t\<in>set (concat (map (split_text ext 1000 100) pages)).
              2 \<le> count_list (map page_content (index (startup ext oc2 (startup ext oc1 st)))) t)"
    if "persist_dir st = Some listing" "listing \<noteq> []"
      "files st ''app/data/menu.pdf'' = Some bytes" "pdf_pages ext bytes = Inr pages"
      "split_error oc1 = None" "add_error oc1 = None"
      "split_error oc2 = None" "add_error oc2 = None"
    for listing bytes pages
  proof -
    let ?menu = "chunk_documents ext (page_documents ''app/data/menu.pdf'' pages)"
    have s1: "startup ext oc1 st = st\<lparr>fcm_tokens := {}, index := index st @ ?menu\<rparr>"
      using that by (simp add: startup_menu)
    have s2: "startup ext oc2 (st\<lparr>fcm_tokens := {}, index := index st @ ?menu\<rparr>) =
        st\<lparr>fcm_tokens := {}, index := (index st @ ?menu) @ ?menu\<rparr>"
      using that
      by (simp add: startup_menu [where listing = listing and bytes = bytes and pages = pages])
    have texts: "map page_content (index (startup ext oc2 (startup ext oc1 st))) =
        map page_content (index st)
        @ concat (map (split_text ext 1000 100) pages)
        @ concat (map (split_text ext 1000 100) pages)"
      by (simp add: s1 s2 chunk_texts)
    from texts twice_counted [OF texts] show ?thesis by blast
  qed
  obtain added where added: "index (run ext ops st) = index st @ added"
    using run_grows [of ext ops st] by auto
  then have "length (index st) \<le> length (index (run ext ops st))"
    by simp
  with uploads paths starts added show ?thesis by blast
qed

lemma menu_upload_once:
  "upload_pdf sample_ext calm menu_upload st =
     (ok (Message ''Nuevo PDF procesado y base de datos vectorial actualizada exitosamente.''),
      st\<lparr>files := (files st)(''/tmp/tmpk3v9x2ab.pdf'' := None),
         index := index st @
           [\<lparr>page_content = ''Menu: Pizza $10'',
             metadata = [(''source'', MStr ''/tmp/tmpk3v9x2ab.pdf''), (''page'', MInt 0)]\<rparr>]\<rparr>)"
  by (simp add: upload_pdf_cases process_upload_cases write_upload_ok sample_content_types
        sample_pages sample_chunks calm_fields)

lemma handle_chat_state:
  "retrieval_error oc = None \<Longrightarrow>
   snd (handle_chat ext oc q st) =
     st\<lparr>llm_calls := llm_calls st
          @ [prompt_template (py_str_list (map (doc_repr ext) (retriever ext q (index st)))) q]\<rparr>"
  by (simp add: handle_chat_def rag_chain_cases split: sum.splits)

lemma menu_state_fields:
  "persist_dir menu_state = Some [''chroma.sqlite3'']"
  "files menu_state ''app/data/menu.pdf'' = Some ''%PDF-Menu: Pizza $10''"
  "index menu_state = [bootstrap_document]"
  "pdf_pages sample_ext ''%PDF-Menu: Pizza $10'' = Inr [''Menu: Pizza $10'']"
  by (simp_all add: menu_state_def bootstrapped_state_def sample_ext_def)

lemma menu_startup_once:
  assumes "persist_dir st = Some [''chroma.sqlite3'']"
    and "files st ''app/data/menu.pdf'' = Some ''%PDF-Menu: Pizza $10''"
  shows "startup sample_ext calm st =
     st\<lparr>fcm_tokens := {},
        index := index st @
          [\<lparr>page_content = ''Menu: Pizza $10'',
            metadata = [(''source'', MStr ''app/data/menu.pdf''), (''page'', MInt 0)]\<rparr>]\<rparr>"
  using assms
  by (simp add: startup_menu [where listing = "[''chroma.sqlite3'']"
          and bytes = "''%PDF-Menu: Pizza $10''" and pages = "[''Menu: Pizza $10'']"]
        menu_state_fields calm_fields sample_chunks)

theorem index_append_only_witness:
  "status_code (fst (upload_pdf sample_ext calm menu_upload menu_state)) = 200
   \<and> status_code (fst (upload_pdf sample_ext calm menu_upload
        (snd (upload_pdf sample_ext calm menu_upload menu_state)))) = 200
   \<and> count_list (map page_content (index (snd (upload_pdf sample_ext calm menu_upload
        (snd (upload_pdf sample_ext calm menu_upload menu_state)))))) ''Menu: Pizza $10'' = 2
   \<and> fst (process_pdf_from_path sample_ext calm ''app/data/menu.pdf'' menu_state) = Inr ()
   \<and> map page_content (index (startup sample_ext calm (startup sample_ext calm menu_state))) =
       [''Este es un documento inicial para la base de datos vectorial.'',
        ''Menu: Pizza $10'', ''Menu: Pizza $10'']
   \<and> length (index menu_state) = 1
   \<and> length (index (run sample_ext
        [(calm, Startup), (calm, UploadPdf menu_upload), (calm, Chat ''Pizza''),
         (calm, Startup)] menu_state)) = 4"
proof -
  have ran: "length (index (run sample_ext
        [(calm, Startup), (calm, UploadPdf menu_upload), (calm, Chat ''Pizza''),
         (calm, Startup)] menu_state)) = 4"
    by (simp add: step_def menu_startup_once menu_upload_once handle_chat_state
          menu_state_fields calm_fields)
  have twice: "map page_content (index (snd (upload_pdf sample_ext calm menu_upload
        (snd (upload_pdf sample_ext calm menu_upload menu_state))))) =
      [''Este es un documento inicial para la base de datos vectorial.'',
       ''Menu: Pizza $10'', ''Menu: Pizza $10'']"
    by (simp add: menu_upload_once menu_state_fields) (simp add: bootstrap_document_def)
  have counted: "count_list [''Este es un documento inicial para la base de datos vectorial.'',
       ''Menu: Pizza $10'', ''Menu: Pizza $10''] ''Menu: Pizza $10'' = 2"
    by simp
  have codes: "status_code (fst (upload_pdf sample_ext calm menu_upload menu_state)) = 200"
    "status_code (fst (upload_pdf sample_ext calm menu_upload
        (snd (upload_pdf sample_ext calm menu_upload menu_state)))) = 200"
    by (simp_all add: menu_upload_once ok_def)
  have one: "length (index menu_state) = 1"
    by (simp add: menu_state_fields)
  have from_path: "fst (process_pdf_from_path sample_ext calm ''app/data/menu.pdf'' menu_state) = Inr ()"
    by (simp add: process_pdf_from_path_cases load_split_add_cases menu_state_fields calm_fields)
  have texts: "split_text sample_ext 1000 100 ''Menu: Pizza $10'' = [''Menu: Pizza $10'']"
    by (simp add: sample_ext_def)
  note starts = index_append_only [where ext = sample_ext and ?oc1.0 = calm and ?oc2.0 = calm
      and pdf = menu_upload and st = menu_state and path = "''app/data/menu.pdf''"
      and ops = "[(calm, Startup), (calm, UploadPdf menu_upload), (calm, Chat ''Pizza''),
                  (calm, Startup)]",
      THEN conjunct2, THEN conjunct2, THEN conjunct1, rule_format,
      of "[''chroma.sqlite3'']" "''%PDF-Menu: Pizza $10''" "[''Menu: Pizza $10'']"]
  from starts
  have started: "map page_content (index (startup sample_ext calm (startup sample_ext calm menu_state))) =
       [''Este es un documento inicial para la base de datos vectorial.'',
        ''Menu: Pizza $10'', ''Menu: Pizza $10'']"
    by (simp add: menu_state_fields calm_fields texts bootstrap_document_def)
  with ran twice counted codes one from_path show ?thesis
    by simp
qed

end
